theory Spec2Isabelle
  imports Complex_Main "HOL-Library.Signed_Division"
begin

section \<open>Data model\<close>

text \<open>
  The part of \<^verbatim>\<open>http.Response\<close> that the library reads is \<^verbatim>\<open>StatusCode\<close>; the body is
  kept so that two responses with the same status can be told apart. A Go pointer
  \<^verbatim>\<open>*http.Response\<close> is a \<open>Response option\<close>, \<open>None\<close> being \<^verbatim>\<open>nil\<close>.
\<close>

record Response =
  StatusCode :: int
  Body :: string

text \<open>
  \<^verbatim>\<open>type BadHttpResponseCode struct { HttpResponseCode int; Message string }\<close>.
  A Go \<^verbatim>\<open>error\<close> is an interface value: either the library's own structured error or any
  other error value, such as the one a failed network operation returns. \<open>error option\<close> is
  the interface with \<open>None\<close> for \<^verbatim>\<open>nil\<close>.
\<close>

record BadHttpResponseCode =
  HttpResponseCode :: int
  Message :: string

datatype error = BadHttpResponse BadHttpResponseCode | NetworkError string

fun Error :: "error \<Rightarrow> string" where
  "Error (BadHttpResponse e) = Message e"
| "Error (NetworkError m) = m"

text \<open>Reading a field through a nil pointer panics; the panic is a value of the model.\<close>

datatype panic = NilPointerDereference

subsection \<open>\<^verbatim>\<open>strconv.Itoa\<close>\<close>

definition digit :: "nat \<Rightarrow> char" where
  "digit d = ''0123456789'' ! d"

fun digits :: "nat \<Rightarrow> string" where
  "digits n = (if n < 10 then [digit n] else digits (n div 10) @ [digit (n mod 10)])"

declare digits.simps [simp del]

definition Itoa :: "int \<Rightarrow> string" where
  "Itoa i = (if i < 0 then CHR ''-'' # digits (nat (- i)) else digits (nat i))"

section \<open>The backoff loop\<close>

text \<open>
  The scheduler is the \<^verbatim>\<open>backoff.BackOff\<close> interface of the package
  \<^verbatim>\<open>github.com/cenkalti/backoff\<close>, which the repository only imports. Its two methods are
  parameters of the model: \<open>NextBackOff\<close> returns the next wait, or \<open>None\<close> for
  \<^verbatim>\<open>backoff.Stop\<close>, together with the updated scheduler; whatever the scheduler reads (its
  clock, its source of randomness) is part of its state \<open>'b\<close>.
\<close>

type_synonym duration = rat

record 'b BackOff =
  NextBackOff :: "'b \<Rightarrow> duration option \<times> 'b"
  Reset :: "'b \<Rightarrow> 'b"

text \<open>
  Modelled from the spec: \<^verbatim>\<open>backoff.RetryNotify\<close>, the loop of the imported package, which
  the repository calls and does not contain. Steps 4 and 5 of the per-attempt procedure: a
  terminal outcome (the operation returns a nil error) leaves the loop at once; after a
  retryable outcome the scheduler is asked for the next wait, \<^verbatim>\<open>STOP\<close> leaves the loop with the
  last retryable error, anything else suspends for the wait and starts the next attempt.
  The scheduler's running state is reset at the beginning of each invocation. The operation
  is a closure over mutable state \<open>'s\<close>; a panic inside it unwinds through the loop. Sleeping
  and the notification callback (which only logs) do not change what is returned. A loop that
  never leaves is \<open>None\<close>.
\<close>

partial_function (option) RetryNotify_loop ::
  "('s \<Rightarrow> (panic + error option) \<times> 's) \<Rightarrow> ('b \<Rightarrow> duration option \<times> 'b) \<Rightarrow> 's \<Rightarrow> 'b
     \<Rightarrow> ((panic + error option) \<times> 's \<times> 'b) option" where
  "RetryNotify_loop operation next s b =
     (case operation s of
        (Inl p, s') \<Rightarrow> Some (Inl p, s', b)
      | (Inr None, s') \<Rightarrow> Some (Inr None, s', b)
      | (Inr (Some e), s') \<Rightarrow>
          (case next b of
             (None, b') \<Rightarrow> Some (Inr (Some e), s', b')
           | (Some wait, b') \<Rightarrow> RetryNotify_loop operation next s' b'))"

text \<open>
  Modelled from the spec: the entry of \<^verbatim>\<open>backoff.RetryNotify\<close>, which resets the scheduler
  and then runs the loop.
\<close>

definition RetryNotify ::
  "('s \<Rightarrow> (panic + error option) \<times> 's) \<Rightarrow> 'b BackOff \<Rightarrow> 's \<Rightarrow> 'b
     \<Rightarrow> ((panic + error option) \<times> 's \<times> 'b) option" where
  "RetryNotify operation bk s b = RetryNotify_loop operation (NextBackOff bk) s (Reset bk b)"

section \<open>\<^verbatim>\<open>Retry\<close> of \<^verbatim>\<open>httpbackoff.go\<close>\<close>

text \<open>
  \<^verbatim>\<open>httpCall\<close> is a Go closure: calling it may change the world \<open>'w\<close> (the network, the
  server, anything the closure captured) and returns a response pointer and an error.
\<close>

type_synonym 'w httpCall = "'w \<Rightarrow> (Response option \<times> error option) \<times> 'w"

text \<open>The variables of \<^verbatim>\<open>Retry\<close> that the closure \<^verbatim>\<open>doHttpCall\<close> captures and assigns.\<close>

record locals =
  response :: "Response option"
  err :: "error option"
  attempts :: int

text \<open>
  Go's \<^verbatim>\<open>/\<close> on integers truncates towards zero, which is \<open>sdiv\<close>. The counter is a Go
  \<^verbatim>\<open>int\<close>; it is modelled unbounded, since wrapping it takes more than \<open>2 ^ 31\<close> HTTP calls
  in one invocation.
\<close>

definition doHttpCall ::
  "'w httpCall \<Rightarrow> locals \<times> 'w \<Rightarrow> (panic + error option) \<times> locals \<times> 'w" where
  "doHttpCall httpCall = (\<lambda>(l, w).
     (case httpCall w of
        ((resp, e), w') \<Rightarrow>
          (let l' = l\<lparr>response := resp, err := e, attempts := attempts l + 1\<rparr> in
           if err l' \<noteq> None then (Inr (err l'), l', w')
           else (case response l' of
                   None \<Rightarrow> (Inl NilPointerDereference, l', w')
                 | Some r \<Rightarrow>
                     (let respCode = StatusCode r in
                      if respCode sdiv 100 = 5
                      then (Inr (Some (BadHttpResponse
                              \<lparr>HttpResponseCode = respCode,
                               Message = ''(Intermittent) HTTP response code '' @ Itoa respCode\<rparr>)),
                            l', w')
                      else (Inr None, l', w'))))))"

text \<open>
  \<^verbatim>\<open>Retry\<close> runs the loop on the package variable \<^verbatim>\<open>BackOffSettings\<close>, whose value after the
  call is returned with the world. The result is a panic, or the triple of the response, the
  attempt count and the error.
\<close>

definition Retry ::
  "'b BackOff \<Rightarrow> 'w httpCall \<Rightarrow> 'w \<Rightarrow> 'b
     \<Rightarrow> ((panic + Response option \<times> int \<times> error option) \<times> 'w \<times> 'b) option" where
  "Retry bk httpCall w BackOffSettings =
     (case RetryNotify (doHttpCall httpCall) bk
             (\<lparr>response = None, err = None, attempts = 0\<rparr>, w) BackOffSettings of
        None \<Rightarrow> None
      | Some (Inl p, (l, w'), b') \<Rightarrow> Some (Inl p, w', b')
      | Some (Inr e, (l, w'), b') \<Rightarrow>
          (let l1 = l\<lparr>err := e\<rparr> in
           if err l1 \<noteq> None then Some (Inr (response l1, attempts l1, err l1), w', b')
           else (case response l1 of
                   None \<Rightarrow> Some (Inl NilPointerDereference, w', b')
                 | Some r \<Rightarrow>
                     (let respCode = StatusCode r in
                      if respCode sdiv 100 \<noteq> 2
                      then Some (Inr (response l1, attempts l1,
                              Some (BadHttpResponse
                                \<lparr>HttpResponseCode = respCode,
                                 Message = ''(Permanent) HTTP response code '' @ Itoa respCode\<rparr>)),
                            w', b')
                      else Some (Inr (response l1, attempts l1, err l1), w', b')))))"

text \<open>
  An operation that also keeps a log of its own invocations: each call appends what it
  returned. The length of the log is the number of times the operation was invoked, and its
  last entry is what the final attempt returned.
\<close>

definition traced ::
  "'w httpCall \<Rightarrow> ('w \<times> (Response option \<times> error option) list) httpCall" where
  "traced httpCall = (\<lambda>(w, tr). (case httpCall w of (r, w') \<Rightarrow> (r, (w', tr @ [r]))))"

subsection \<open>Describing a run\<close>

text \<open>
  The first \<open>n\<close> invocations of the operation from the world \<open>w\<close>: what each returned, and
  the world after the last.
\<close>

fun calls ::
  "nat \<Rightarrow> 'w httpCall \<Rightarrow> 'w \<Rightarrow> (Response option \<times> error option) list \<times> 'w" where
  "calls 0 httpCall w = ([], w)"
| "calls (Suc n) httpCall w =
     (case httpCall w of
        (r, w1) \<Rightarrow> (case calls n httpCall w1 of (rs, w2) \<Rightarrow> (r # rs, w2)))"

text \<open>
  The scheduler after \<open>n\<close> calls of \<open>NextBackOff\<close> that all granted a wait; \<open>None\<close> if one of
  them returned \<^verbatim>\<open>STOP\<close>.
\<close>

fun waits_granted :: "('b \<Rightarrow> duration option \<times> 'b) \<Rightarrow> nat \<Rightarrow> 'b \<Rightarrow> 'b option" where
  "waits_granted next 0 b = Some b"
| "waits_granted next (Suc n) b =
     (case next b of (None, b1) \<Rightarrow> None | (Some wait, b1) \<Rightarrow> waits_granted next n b1)"

text \<open>Classes of what one attempt can return.\<close>

definition is_5xx :: "Response option \<times> error option \<Rightarrow> bool" where
  "is_5xx = (\<lambda>(resp, e). e = None \<and>
     (case resp of None \<Rightarrow> False | Some r \<Rightarrow> 500 \<le> StatusCode r \<and> StatusCode r < 600))"

definition network_failure :: "Response option \<times> error option \<Rightarrow> bool" where
  "network_failure = (\<lambda>(resp, e). e \<noteq> None)"

definition retryable :: "Response option \<times> error option \<Rightarrow> bool" where
  "retryable x = (network_failure x \<or> is_5xx x)"

section \<open>\<^verbatim>\<open>Retry\<close> as a method of \<^verbatim>\<open>*ExponentialBackOff\<close>\<close>

text \<open>
  The variant whose operation returns a response, a temporary error and a permanent error.
  \<^verbatim>\<open>httputil.DumpResponse\<close> belongs to the standard library and is a parameter; it
  dereferences its argument, so a nil response panics there.
\<close>

type_synonym 'w httpCall3 =
  "'w \<Rightarrow> (Response option \<times> error option \<times> error option) \<times> 'w"

record method_locals =
  m_response :: "Response option"
  tempError :: "error option"
  permError :: "error option"
  m_attempts :: int

definition doHttpCall_m ::
  "(Response \<Rightarrow> error + string) \<Rightarrow> 'w httpCall3 \<Rightarrow> method_locals \<times> 'w
     \<Rightarrow> (panic + error option) \<times> method_locals \<times> 'w" where
  "doHttpCall_m DumpResponse httpCall = (\<lambda>(l, w).
     (case httpCall w of
        ((resp, te, pe), w') \<Rightarrow>
          (let l' = l\<lparr>m_response := resp, tempError := te, permError := pe,
                       m_attempts := m_attempts l + 1\<rparr> in
           if tempError l' \<noteq> None then (Inr (tempError l'), l', w')
           else if permError l' \<noteq> None then (Inr None, l', w')
           else (case m_response l' of
                   None \<Rightarrow> (Inl NilPointerDereference, l', w')
                 | Some r \<Rightarrow>
                     (let out = (case DumpResponse r of Inl readErr \<Rightarrow> [] | Inr raw \<Rightarrow> raw);
                          respCode = StatusCode r in
                      if respCode sdiv 100 = 5
                      then (Inr (Some (BadHttpResponse
                              \<lparr>HttpResponseCode = respCode,
                               Message = ''(Intermittent) HTTP response code '' @ Itoa respCode
                                 @ [CHR 0x0A] @ out\<rparr>)),
                            l', w')
                      else if respCode sdiv 100 \<noteq> 2
                      then (Inr None,
                            l'\<lparr>permError := Some (BadHttpResponse
                              \<lparr>HttpResponseCode = respCode,
                               Message = ''(Permanent) HTTP response code '' @ Itoa respCode
                                 @ [CHR 0x0A] @ out\<rparr>)\<rparr>,
                            w')
                      else (Inr None, l', w'))))))"

text \<open>
  Schedulers that are reached through pointers live in a store: a list of cells, a pointer
  being \<open>None\<close> (nil) or the index of a cell. The loop is handed a pointer and reads and writes
  the scheduler only through it; the operation has no access to the store. A pointer that is
  no cell of the store cannot be followed.
\<close>

definition RetryNotify_at ::
  "('s \<Rightarrow> (panic + error option) \<times> 's) \<Rightarrow> 'b BackOff \<Rightarrow> nat \<Rightarrow> 's \<Rightarrow> 'b list
     \<Rightarrow> ((panic + error option) \<times> 's \<times> 'b list) option" where
  "RetryNotify_at operation bk a s h =
     (if \<not> a < length h then Some (Inl NilPointerDereference, s, h)
      else (case RetryNotify operation bk s (h ! a) of
              None \<Rightarrow> None
            | Some (r, s', v) \<Rightarrow> Some (r, s', h[a := v])))"

text \<open>
  \<^verbatim>\<open>b := backoff.ExponentialBackOff(*backOffSettings)\<close> allocates the local \<^verbatim>\<open>b\<close> in a new
  cell holding a copy of the receiver, and the loop is given \<^verbatim>\<open>&b\<close>. Dereferencing a nil
  receiver (or one that is no cell of the store) panics before any attempt.
\<close>

definition Retry_m ::
  "(Response \<Rightarrow> error + string) \<Rightarrow> 'b BackOff \<Rightarrow> 'w httpCall3 \<Rightarrow> nat option \<Rightarrow> 'w \<Rightarrow> 'b list
     \<Rightarrow> ((panic + Response option \<times> int \<times> error option) \<times> 'w \<times> 'b list) option" where
  "Retry_m DumpResponse bk httpCall backOffSettings w h =
     (case backOffSettings of
        None \<Rightarrow> Some (Inl NilPointerDereference, w, h)
      | Some p \<Rightarrow>
          if \<not> p < length h then Some (Inl NilPointerDereference, w, h)
          else
            (let b = length h; h1 = h @ [h ! p] in
             (case RetryNotify_at (doHttpCall_m DumpResponse httpCall) bk b
                     (\<lparr>m_response = None, tempError = None, permError = None, m_attempts = 0\<rparr>, w)
                     h1 of
                None \<Rightarrow> None
              | Some (Inl pnc, (l, w'), h') \<Rightarrow> Some (Inl pnc, w', h')
              | Some (Inr e, (l, w'), h') \<Rightarrow>
                  (if permError l \<noteq> None
                   then Some (Inr (m_response l, m_attempts l, permError l), w', h')
                   else if tempError l \<noteq> None
                   then Some (Inr (m_response l, m_attempts l, tempError l), w', h')
                   else Some (Inr (m_response l, m_attempts l, None), w', h')))))"

section \<open>The exponential scheduler\<close>

text \<open>
  Modelled from the spec: the struct \<^verbatim>\<open>backoff.ExponentialBackOff\<close> of the imported package.
  Its exported fields are the ones the tests and the README set; the running state
  (\<^verbatim>\<open>currentInterval\<close>, and \<^verbatim>\<open>startTime\<close>, which is unset until first use) is the data model's.
  Times and durations are exact rationals, in nanoseconds.
\<close>

record ExponentialBackOff =
  InitialInterval :: duration
  RandomizationFactor :: rat
  Multiplier :: rat
  MaxInterval :: duration
  MaxElapsedTime :: duration
  currentInterval :: duration
  startTime :: "rat option"

text \<open>
  Modelled from the spec: \<^verbatim>\<open>Reset\<close> of the imported package's \<^verbatim>\<open>ExponentialBackOff\<close>, which is
  not part of the repository. It clears \<^verbatim>\<open>startTime\<close> and restores \<^verbatim>\<open>currentInterval\<close> to
  \<^verbatim>\<open>initialInterval\<close>.
\<close>

definition ExponentialBackOff_Reset :: "ExponentialBackOff \<Rightarrow> ExponentialBackOff" where
  "ExponentialBackOff_Reset b = b\<lparr>currentInterval := InitialInterval b, startTime := None\<rparr>"

text \<open>
  Modelled from the spec: \<^verbatim>\<open>NextBackOff\<close> of the imported package's \<^verbatim>\<open>ExponentialBackOff\<close>,
  which is not part of the repository. The reading of the clock \<open>now\<close> and the uniform draw
  \<open>random\<close> from \<open>[0, 1]\<close> are arguments. If \<^verbatim>\<open>startTime\<close> is unset it is set to now; if
  \<^verbatim>\<open>maxElapsedTime\<close> is non-zero and \<open>now - startTime > maxElapsedTime\<close> the result is
  \<^verbatim>\<open>STOP\<close>; otherwise \<^verbatim>\<open>currentInterval\<close> is clamped to \<^verbatim>\<open>maxInterval\<close>, the result is drawn from
  the clamped interval plus or minus its \<^verbatim>\<open>randomizationFactor\<close> share, and
  \<^verbatim>\<open>currentInterval\<close> becomes \<open>min (currentInterval * multiplier) maxInterval\<close>.
\<close>

definition ExponentialBackOff_NextBackOff ::
  "rat \<Rightarrow> rat \<Rightarrow> ExponentialBackOff \<Rightarrow> duration option \<times> ExponentialBackOff" where
  "ExponentialBackOff_NextBackOff now random b =
     (case (case startTime b of
              None \<Rightarrow> (now, b\<lparr>startTime := Some now\<rparr>)
            | Some t \<Rightarrow> (t, b)) of
        (start, b1) \<Rightarrow>
          if MaxElapsedTime b1 \<noteq> 0 \<and> now - start > MaxElapsedTime b1 then (None, b1)
          else
            (let clamped = min (currentInterval b1) (MaxInterval b1);
                 delta = clamped * RandomizationFactor b1;
                 randomized = (clamped - delta) + random * (2 * delta)
             in (Some randomized,
                 b1\<lparr>currentInterval :=
                      min (currentInterval b1 * Multiplier b1) (MaxInterval b1)\<rparr>)))"

text \<open>
  The waits returned by successive calls of \<^verbatim>\<open>NextBackOff\<close>, one call for each pair of a clock
  reading and a random draw; a call that returns \<^verbatim>\<open>STOP\<close> contributes no wait.
\<close>

fun successive_waits :: "(rat \<times> rat) list \<Rightarrow> ExponentialBackOff \<Rightarrow> duration list" where
  "successive_waits [] b = []"
| "successive_waits ((now, random) # cs) b =
     (case ExponentialBackOff_NextBackOff now random b of
        (None, b1) \<Rightarrow> successive_waits cs b1
      | (Some wait, b1) \<Rightarrow> wait # successive_waits cs b1)"

section \<open>Concrete operations and schedulers\<close>

text \<open>
  \<^verbatim>\<open>MyHandler\<close> of \<^verbatim>\<open>test_setup_test.go\<close>: a queue of canned responses, served in order; with
  an empty queue the handler writes nothing, which \<^verbatim>\<open>net/http\<close> sends as an empty 200.
\<close>

record HTTPResponse =
  body :: string
  statusCode :: int

definition ServeHTTP :: "HTTPResponse list \<Rightarrow> Response \<times> HTTPResponse list" where
  "ServeHTTP QueuedResponses =
     (case QueuedResponses of
        [] \<Rightarrow> (\<lparr>StatusCode = 200, Body = []\<rparr>, [])
      | x # rest \<Rightarrow> (\<lparr>StatusCode = statusCode x, Body = body x\<rparr>, rest))"

text \<open>A \<^verbatim>\<open>Get\<close> against the stub server always reaches it.\<close>

definition stubGet :: "HTTPResponse list httpCall" where
  "stubGet q = (case ServeHTTP q of (r, q') \<Rightarrow> ((Some r, None), q'))"

text \<open>An operation that replays a script of outcomes; past its end the connection fails.\<close>

fun scripted :: "(Response option \<times> error option) list httpCall" where
  "scripted [] = ((None, Some (NetworkError ''connection refused'')), [])"
| "scripted (x # xs) = (x, xs)"

text \<open>
  The wrappers of the method-based variant (\<^verbatim>\<open>Get\<close>, \<^verbatim>\<open>Head\<close>, ...) pass every error of the
  underlying call as a temporary one: \<^verbatim>\<open>return resp, err, nil\<close>.
\<close>

definition as_temporary :: "'w httpCall \<Rightarrow> 'w httpCall3" where
  "as_temporary httpCall =
     (\<lambda>w. (case httpCall w of ((resp, e), w') \<Rightarrow> ((resp, e, None), w')))"

text \<open>
  Schedulers for concrete runs: one that stops at once, one that grants a fixed number of
  immediate retries after each reset, and the exponential scheduler read against a clock that
  stands still.
\<close>

definition stopBackOff :: "unit BackOff" where
  "stopBackOff = \<lparr>NextBackOff = (\<lambda>u. (None, u)), Reset = (\<lambda>u. u)\<rparr>"

definition maxRetries :: "nat \<Rightarrow> nat BackOff" where
  "maxRetries n =
     \<lparr>NextBackOff = (\<lambda>k. if k = 0 then (None, 0) else (Some 0, k - 1)), Reset = (\<lambda>k. n)\<rparr>"

definition frozenClock :: "rat \<Rightarrow> rat \<Rightarrow> ExponentialBackOff BackOff" where
  "frozenClock now random =
     \<lparr>NextBackOff = ExponentialBackOff_NextBackOff now random, Reset = ExponentialBackOff_Reset\<rparr>"

text \<open>
  The settings of \<^verbatim>\<open>TestMain\<close> in nanoseconds (1 ms initial interval, multiplier 1.2, 5 ms
  maximal interval, 20 ms budget), with the jitter switched off.
\<close>

definition testSettings :: ExponentialBackOff where
  "testSettings =
     \<lparr>InitialInterval = 1000000, RandomizationFactor = 0, Multiplier = 6 / 5,
      MaxInterval = 5000000, MaxElapsedTime = 20000000, currentInterval = 1000000,
      startTime = None\<rparr>"

section \<open>Status classes\<close>

lemma sdiv_100_eq_5: "(s::int) sdiv 100 = 5 \<longleftrightarrow> 500 \<le> s \<and> s < 600"
  by (auto simp: signed_divide_int_def sgn_if abs_if split: if_splits)

lemma sdiv_100_eq_2: "(s::int) sdiv 100 = 2 \<longleftrightarrow> 200 \<le> s \<and> s < 300"
  by (auto simp: signed_divide_int_def sgn_if abs_if split: if_splits)

lemma is_5xx_retryable: "is_5xx x \<Longrightarrow> retryable x"
  by (simp add: retryable_def)

lemma Itoa_429: "Itoa 429 = ''429''"
  by (simp add: Itoa_def digits.simps digit_def)

section \<open>One turn of the loop\<close>

lemma loop_retry:
  "operation s = (Inr (Some e), s1) \<Longrightarrow> nxt b = (Some d, b1) \<Longrightarrow>
   RetryNotify_loop operation nxt s b = RetryNotify_loop operation nxt s1 b1"
  by (subst RetryNotify_loop.simps) simp

lemma loop_stop:
  "operation s = (Inr (Some e), s1) \<Longrightarrow> nxt b = (None, b1) \<Longrightarrow>
   RetryNotify_loop operation nxt s b = Some (Inr (Some e), s1, b1)"
  by (subst RetryNotify_loop.simps) simp

lemma loop_done:
  "operation s = (Inr None, s1) \<Longrightarrow>
   RetryNotify_loop operation nxt s b = Some (Inr None, s1, b)"
  by (subst RetryNotify_loop.simps) simp

lemma loop_panic:
  "operation s = (Inl p, s1) \<Longrightarrow>
   RetryNotify_loop operation nxt s b = Some (Inl p, s1, b)"
  by (subst RetryNotify_loop.simps) simp

text \<open>
  The loop returns whenever the scheduler stops after finitely many waits, whatever the
  operation does.
\<close>

lemma loop_returns:
  assumes "waits_granted nxt k b = Some b1" and "fst (nxt b1) = None"
  shows "\<exists>y. RetryNotify_loop operation nxt s b = Some y"
  using assms
proof (induction k arbitrary: s b)
  case 0
  obtain r s1 where o: "operation s = (r, s1)" by (cases "operation s")
  obtain d b2 where n: "nxt b = (d, b2)" by (cases "nxt b")
  from 0 n have "d = None" by simp
  with o n show ?case
    by (subst RetryNotify_loop.simps) (simp split: sum.splits option.splits)
next
  case (Suc k)
  obtain r s1 where o: "operation s = (r, s1)" by (cases "operation s")
  obtain d b2 where n: "nxt b = (d, b2)" by (cases "nxt b")
  from Suc.prems(1) n obtain wait where d: "d = Some wait"
    and g: "waits_granted nxt k b2 = Some b1"
    by (auto split: option.splits)
  from Suc.IH [OF g Suc.prems(2), of s1] obtain y where
    y: "RetryNotify_loop operation nxt s1 b2 = Some y" ..
  obtain res s2 b3 where "y = (res, s2, b3)" by (cases y)
  with y o n d show ?case
    by (subst RetryNotify_loop.simps) (simp split: sum.splits option.splits)
qed

lemma Retry_returns:
  assumes "waits_granted (NextBackOff bk) k (Reset bk b) = Some b1"
    and "fst (NextBackOff bk b1) = None"
  shows "\<exists>y. Retry bk httpCall w b = Some y"
proof -
  from loop_returns [OF assms, where operation = "doHttpCall httpCall"
      and s = "(\<lparr>response = None, err = None, attempts = 0\<rparr>, w)"]
  obtain y where
    "RetryNotify (doHttpCall httpCall) bk (\<lparr>response = None, err = None, attempts = 0\<rparr>, w) b =
       Some y"
    unfolding RetryNotify_def by blast
  then show ?thesis
    by (cases y) (auto simp: Retry_def Let_def split: sum.splits option.splits)
qed

text \<open>
  An invariant of the operation's state that holds at the start holds after every turn, so
  what the last turn establishes holds of the result.
\<close>

lemma loop_last:
  assumes run: "RetryNotify_loop operation nxt s b = Some (res, s', b')"
    and init: "I s"
    and step: "\<And>s r s1. I s \<Longrightarrow> operation s = (r, s1) \<Longrightarrow> I s1 \<and> Q r s1"
  shows "Q res s'"
proof -
  define P where "P = (\<lambda>op (nx :: 'b \<Rightarrow> duration option \<times> 'b) s (b :: 'b)
      (y :: (panic + error option) \<times> 'a \<times> 'b). op = operation \<longrightarrow> I s \<longrightarrow> Q (fst y) (fst (snd y)))"
  have "P operation nxt s b (res, s', b')"
  proof (rule RetryNotify_loop.raw_induct [where P = P, OF _ run])
    fix loop :: "('a \<Rightarrow> (panic + error option) \<times> 'a) \<Rightarrow> ('b \<Rightarrow> duration option \<times> 'b) \<Rightarrow> 'a \<Rightarrow> 'b
        \<Rightarrow> ((panic + error option) \<times> 'a \<times> 'b) option"
    fix op nx s b y
    assume IH: "\<And>op nx s b y. loop op nx s b = Some y \<Longrightarrow> P op nx s b y"
    assume body: "(case op s of
        (Inl p, s') \<Rightarrow> Some (Inl p, s', b)
      | (Inr None, s') \<Rightarrow> Some (Inr None, s', b)
      | (Inr (Some e), s') \<Rightarrow>
          (case nx b of
             (None, b') \<Rightarrow> Some (Inr (Some e), s', b')
           | (Some wait, b') \<Rightarrow> loop op nx s' b')) = Some y"
    show "P op nx s b y"
      unfolding P_def
    proof (intro impI)
      assume op: "op = operation" and I: "I s"
      obtain r s1 where o: "operation s = (r, s1)" by (cases "operation s")
      from step [OF I o] have I1: "I s1" and Q1: "Q r s1" by simp_all
      show "Q (fst y) (fst (snd y))"
      proof (cases r)
        case (Inl p)
        with body o op Q1 show ?thesis by auto
      next
        case (Inr eo)
        show ?thesis
        proof (cases eo)
          case None
          with body o op Q1 Inr show ?thesis by auto
        next
          case (Some e)
          obtain d b1 where n: "nx b = (d, b1)" by (cases "nx b")
          show ?thesis
          proof (cases d)
            case None
            with body o op Q1 Inr Some n show ?thesis by auto
          next
            case (Some wait)
            with body o op Inr \<open>eo = Some e\<close> n have "loop operation nx s1 b1 = Some y"
              by simp
            from IH [OF this] I1 show ?thesis by (simp add: P_def)
          qed
        qed
      qed
    qed
  qed
  with init show ?thesis by (simp add: P_def)
qed

section \<open>Runs with a known beginning\<close>

lemma calls_Suc_snoc:
  "calls (Suc n) httpCall w =
     (case calls n httpCall w of (rs, w1) \<Rightarrow> (case httpCall w1 of (r, w2) \<Rightarrow> (rs @ [r], w2)))"
proof (induction n arbitrary: w)
  case 0
  show ?case by (simp split: prod.splits)
next
  case (Suc n)
  obtain r w1 where c: "httpCall w = (r, w1)" by (cases "httpCall w")
  obtain rs w2 where n: "calls n httpCall w1 = (rs, w2)" by (cases "calls n httpCall w1")
  obtain r' w3 where l: "httpCall w2 = (r', w3)" by (cases "httpCall w2")
  have a: "calls (Suc n) httpCall w1 = (rs @ [r'], w3)"
    using Suc.IH [of w1] n l by simp
  have b: "calls (Suc n) httpCall w = (r # rs, w2)"
    using c n by simp
  have "calls (Suc (Suc n)) httpCall w = (r # rs @ [r'], w3)"
    using c a by (subst calls.simps(2)) simp
  with b l show ?case by simp
qed

lemma calls_Suc_last:
  assumes "calls (Suc k) httpCall w = (os, w')"
  shows "\<exists>wk. calls k httpCall w = (butlast os, wk) \<and> httpCall wk = (last os, w') \<and> os \<noteq> []"
  using assms unfolding calls_Suc_snoc by (auto split: prod.splits)

lemma doHttpCall_retryable:
  assumes "httpCall w = (x, w')" and "retryable x"
  shows "\<exists>e. doHttpCall httpCall (l, w) =
    (Inr (Some e), l\<lparr>response := fst x, err := snd x, attempts := attempts l + 1\<rparr>, w')"
  using assms
  by (cases x) (auto simp: doHttpCall_def retryable_def network_failure_def is_5xx_def
      sdiv_100_eq_5 Let_def split: option.splits)

lemma loop_unroll:
  assumes "calls k httpCall w = (os, wk)" and "list_all retryable os"
    and "waits_granted nxt k b = Some bk"
  shows "\<exists>l'. attempts l' = attempts l + int k \<and>
     RetryNotify_loop (doHttpCall httpCall) nxt (l, w) b =
     RetryNotify_loop (doHttpCall httpCall) nxt (l', wk) bk"
  using assms
proof (induction k arbitrary: w os l b)
  case 0
  then show ?case by auto
next
  case (Suc k)
  obtain x w1 where c: "httpCall w = (x, w1)" by (cases "httpCall w")
  obtain rs where rs: "calls k httpCall w1 = (rs, wk)" and os: "os = x # rs"
    using Suc.prems(1) c by (auto split: prod.splits)
  obtain d b1 where n: "nxt b = (Some d, b1)" and g: "waits_granted nxt k b1 = Some bk"
    using Suc.prems(3) by (auto split: prod.splits option.splits)
  from Suc.prems(2) os have rx: "retryable x" and rrs: "list_all retryable rs" by simp_all
  from doHttpCall_retryable [where httpCall = httpCall and w = w and l = l, OF c rx] obtain e where
    d: "doHttpCall httpCall (l, w) =
      (Inr (Some e), l\<lparr>response := fst x, err := snd x, attempts := attempts l + 1\<rparr>, w1)" ..
  from Suc.IH [OF rs rrs g,
      where l = "l\<lparr>response := fst x, err := snd x, attempts := attempts l + 1\<rparr>"]
  obtain l' where "attempts l' = attempts l + 1 + int k"
    and "RetryNotify_loop (doHttpCall httpCall) nxt
           (l\<lparr>response := fst x, err := snd x, attempts := attempts l + 1\<rparr>, w1) b1 =
         RetryNotify_loop (doHttpCall httpCall) nxt (l', wk) bk"
    by auto
  with loop_retry [where operation = "doHttpCall httpCall" and s = "(l, w)" and nxt = nxt
      and b = b, OF d n]
  show ?case by (intro exI [of _ l']) simp
qed

lemma RetryNotify_unrolled:
  assumes "calls k httpCall w = (os, wk)" and "list_all retryable os"
    and "waits_granted (NextBackOff bk) k (Reset bk b) = Some b1"
  shows "\<exists>l. attempts l = int k \<and>
     RetryNotify (doHttpCall httpCall) bk (\<lparr>response = None, err = None, attempts = 0\<rparr>, w) b =
     RetryNotify_loop (doHttpCall httpCall) (NextBackOff bk) (l, wk) b1"
  using loop_unroll [OF assms, where l = "\<lparr>response = None, err = None, attempts = 0\<rparr>"]
  by (simp add: RetryNotify_def)

lemma first_attempt_terminal:
  assumes call: "httpCall w = ((Some r, None), w')"
    and not5: "StatusCode r sdiv 100 \<noteq> 5"
  shows "Retry bk httpCall w b =
    Some (Inr (Some r, 1,
            if StatusCode r sdiv 100 \<noteq> 2
            then Some (BadHttpResponse
                   \<lparr>HttpResponseCode = StatusCode r,
                    Message = ''(Permanent) HTTP response code '' @ Itoa (StatusCode r)\<rparr>)
            else None),
          w', Reset bk b)"
proof -
  have step: "doHttpCall httpCall (\<lparr>response = None, err = None, attempts = 0\<rparr>, w) =
      (Inr None, \<lparr>response = Some r, err = None, attempts = 1\<rparr>, w')"
    using call not5 by (simp add: doHttpCall_def)
  have loop: "RetryNotify (doHttpCall httpCall) bk (\<lparr>response = None, err = None, attempts = 0\<rparr>, w) b =
      Some (Inr None, (\<lparr>response = Some r, err = None, attempts = 1\<rparr>, w'), Reset bk b)"
    unfolding RetryNotify_def by (subst RetryNotify_loop.simps) (simp add: step)
  show ?thesis
    unfolding Retry_def loop by (simp add: Let_def)
qed

section \<open>Runs of an operation that logs its invocations\<close>




text \<open>What \<^verbatim>\<open>Retry\<close> returns is decided by the last entry of the log and its length.\<close>

lemma doHttpCall_traced_step:
  assumes "attempts l = int (length tr)"
    and "doHttpCall (traced httpCall) (l, (w, tr)) = (r, (l1, (w1, tr1)))"
  shows "attempts l1 = int (length tr1) \<and> tr1 \<noteq> [] \<and> (response l1, err l1) = last tr1
     \<and> r = (case last tr1 of
              (resp, Some e) \<Rightarrow> Inr (Some e)
            | (None, None) \<Rightarrow> Inl NilPointerDereference
            | (Some x, None) \<Rightarrow>
                if 500 \<le> StatusCode x \<and> StatusCode x < 600
                then Inr (Some (BadHttpResponse
                  \<lparr>HttpResponseCode = StatusCode x,
                   Message = ''(Intermittent) HTTP response code '' @ Itoa (StatusCode x)\<rparr>))
                else Inr None)"
  using assms
  by (cases "httpCall w")
    (auto simp: doHttpCall_def traced_def Let_def sdiv_100_eq_5 split: option.splits if_splits)

lemma Retry_traced_result:
  fixes httpCall :: "'w httpCall"
  assumes "Retry bk (traced httpCall) (w, []) b = Some (out, (w', tr), b')"
  shows "tr \<noteq> [] \<and>
     out = (case last tr of
              (resp, Some e) \<Rightarrow> Inr (resp, int (length tr), Some e)
            | (None, None) \<Rightarrow> Inl NilPointerDereference
            | (Some x, None) \<Rightarrow>
                Inr (Some x, int (length tr),
                  if 200 \<le> StatusCode x \<and> StatusCode x < 300 then None
                  else Some (BadHttpResponse
                    \<lparr>HttpResponseCode = StatusCode x,
                     Message =
                       (if 500 \<le> StatusCode x \<and> StatusCode x < 600
                        then ''(Intermittent) HTTP response code ''
                        else ''(Permanent) HTTP response code '') @ Itoa (StatusCode x)\<rparr>)))"
proof -
  let ?init = "(\<lparr>response = None, err = None, attempts = 0\<rparr>, (w, []))"
  obtain res l where loop: "RetryNotify_loop (doHttpCall (traced httpCall)) (NextBackOff bk)
      ?init (Reset bk b) = Some (res, (l, (w', tr)), b')"
    using assms
    by (auto simp: Retry_def RetryNotify_def Let_def split: option.splits sum.splits if_splits)
  define I where "I = (\<lambda>(l :: locals, (w :: 'w, tr :: (Response option \<times> error option) list)).
      attempts l = int (length tr))"
  define Q where "Q = (\<lambda>(r :: panic + error option)
      (l1 :: locals, (w1 :: 'w, tr1 :: (Response option \<times> error option) list)).
      attempts l1 = int (length tr1) \<and> tr1 \<noteq> [] \<and> (response l1, err l1) = last tr1
     \<and> r = (case last tr1 of
              (resp, Some e) \<Rightarrow> Inr (Some e)
            | (None, None) \<Rightarrow> Inl NilPointerDereference
            | (Some x, None) \<Rightarrow>
                if 500 \<le> StatusCode x \<and> StatusCode x < 600
                then Inr (Some (BadHttpResponse
                  \<lparr>HttpResponseCode = StatusCode x,
                   Message = ''(Intermittent) HTTP response code '' @ Itoa (StatusCode x)\<rparr>))
                else Inr None))"
  have "Q res (l, (w', tr))"
  proof (rule loop_last [where I = I and Q = Q, OF loop])
    show "I ?init" by (simp add: I_def)
  next
    fix s r s1
    assume "I s" and "doHttpCall (traced httpCall) s = (r, s1)"
    then show "I s1 \<and> Q r s1"
      using doHttpCall_traced_step [of "fst s" "snd (snd s)" httpCall "fst (snd s)" r
          "fst s1" "fst (snd s1)" "snd (snd s1)"]
      by (simp add: I_def Q_def split_beta)
  qed
  then have Q: "attempts l = int (length tr)" "tr \<noteq> []" "(response l, err l) = last tr"
    "res = (case last tr of
              (resp, Some e) \<Rightarrow> Inr (Some e)
            | (None, None) \<Rightarrow> Inl NilPointerDereference
            | (Some x, None) \<Rightarrow>
                if 500 \<le> StatusCode x \<and> StatusCode x < 600
                then Inr (Some (BadHttpResponse
                  \<lparr>HttpResponseCode = StatusCode x,
                   Message = ''(Intermittent) HTTP response code '' @ Itoa (StatusCode x)\<rparr>))
                else Inr None)"
    by (simp_all add: Q_def)
  obtain resp e where last: "last tr = (resp, e)" by (cases "last tr")
  from Q(3) last have l: "response l = resp" "err l = e" by simp_all
  from assms loop Q last l show ?thesis
    by (cases resp; cases e)
      (auto simp: Retry_def RetryNotify_def Let_def sdiv_100_eq_2 split: if_splits)
qed

text \<open>A panic can only come from an attempt that returned neither a response nor an error.\<close>

lemma panic_only_after_nil_response:
  assumes "Retry bk (traced httpCall) (w, []) b = Some (Inl p, (w', tr), b')"
  shows "tr \<noteq> [] \<and> last tr = (None, None)"
proof -
  obtain x y where "last tr = (x, y)" by (cases "last tr")
  with Retry_traced_result [OF assms] show ?thesis
    by (cases x; cases y) auto
qed

section \<open>The scheduler without jitter\<close>

lemma NextBackOff_no_jitter:
  assumes "RandomizationFactor b = 0" and "ExponentialBackOff_NextBackOff now random b = (r, b1)"
  shows "RandomizationFactor b1 = 0 \<and> Multiplier b1 = Multiplier b \<and> MaxInterval b1 = MaxInterval b
    \<and> (r = None \<and> currentInterval b1 = currentInterval b
       \<or> r = Some (min (currentInterval b) (MaxInterval b))
         \<and> currentInterval b1 = min (currentInterval b * Multiplier b) (MaxInterval b))"
  using assms
  by (auto simp: ExponentialBackOff_NextBackOff_def Let_def split: option.splits if_splits)

lemma successive_waits_bounds:
  assumes "RandomizationFactor b = 0" and "0 \<le> currentInterval b" and "1 \<le> Multiplier b"
    and "0 \<le> MaxInterval b"
  shows "sorted (successive_waits cs b) \<and>
    (\<forall>d \<in> set (successive_waits cs b).
       min (currentInterval b) (MaxInterval b) \<le> d \<and> d \<le> MaxInterval b)"
  using assms
proof (induction cs arbitrary: b)
  case Nil
  then show ?case by simp
next
  case (Cons c cs)
  obtain now random where c: "c = (now, random)" by (cases c)
  obtain r b1 where n: "ExponentialBackOff_NextBackOff now random b = (r, b1)"
    by (cases "ExponentialBackOff_NextBackOff now random b")
  from NextBackOff_no_jitter [OF Cons.prems(1) n]
  have same: "RandomizationFactor b1 = 0" "Multiplier b1 = Multiplier b"
    "MaxInterval b1 = MaxInterval b"
    and alt: "r = None \<and> currentInterval b1 = currentInterval b
       \<or> r = Some (min (currentInterval b) (MaxInterval b))
         \<and> currentInterval b1 = min (currentInterval b * Multiplier b) (MaxInterval b)"
    by simp_all
  have grow: "currentInterval b \<le> currentInterval b * Multiplier b"
    using Cons.prems(2,3) by (simp add: mult_le_cancel_left1)
  from alt show ?case
  proof
    assume a: "r = None \<and> currentInterval b1 = currentInterval b"
    with Cons.IH [of b1] Cons.prems same c n show ?thesis by simp
  next
    assume a: "r = Some (min (currentInterval b) (MaxInterval b))
         \<and> currentInterval b1 = min (currentInterval b * Multiplier b) (MaxInterval b)"
    then have nonneg: "0 \<le> currentInterval b1"
      using grow Cons.prems(2,4) by simp
    have le: "min (currentInterval b) (MaxInterval b) \<le> min (currentInterval b1) (MaxInterval b)"
      using a grow by simp
    from Cons.IH [of b1] same nonneg Cons.prems(3,4)
    have IH: "sorted (successive_waits cs b1)"
      "\<forall>d \<in> set (successive_waits cs b1).
         min (currentInterval b1) (MaxInterval b) \<le> d \<and> d \<le> MaxInterval b"
      by simp_all
    from IH le a c n show ?thesis
      by (auto simp del: min_less_iff_conj min.bounded_iff)
  qed
qed

section \<open>Evaluating concrete runs\<close>

lemmas run_simps =
  Retry_def RetryNotify_def RetryNotify_loop.simps doHttpCall_def traced_def stubGet_def
  ServeHTTP_def maxRetries_def stopBackOff_def Let_def sdiv_100_eq_5 sdiv_100_eq_2 Itoa_def
  digits.simps digit_def

lemmas method_run_simps =
  Retry_m_def RetryNotify_at_def RetryNotify_def RetryNotify_loop.simps doHttpCall_m_def
  as_temporary_def stubGet_def ServeHTTP_def frozenClock_def ExponentialBackOff_NextBackOff_def
  ExponentialBackOff_Reset_def testSettings_def Let_def sdiv_100_eq_5 sdiv_100_eq_2

section \<open>Status 429\<close>

text \<open>
  C1. The claim: when the first attempt returns a response with status 429 and the second
  one with status 200, \<^verbatim>\<open>Retry\<close> retries the 429 and returns the 200 response, the attempt
  count 2 and a nil error, as \<^verbatim>\<open>TestRetry429\<close> expects. The code does not do so. At the input
  of that test (the stub server answers 429 and then 200, and the scheduler would grant three
  retries) \<^verbatim>\<open>Retry\<close> stops after the 429: one attempt, the 429 response and the error
  "(Permanent) HTTP response code 429"; the 200 stays in the queue. The closure retries only
  when \<^verbatim>\<open>respCode/100 == 5\<close>, and \<open>429 sdiv 100\<close> is 4.
\<close>

theorem status_429_not_retried:
  "calls 2 stubGet
      [\<lparr>body = ''slow down'', statusCode = 429\<rparr>, \<lparr>body = ''success'', statusCode = 200\<rparr>] =
     ([(Some \<lparr>StatusCode = 429, Body = ''slow down''\<rparr>, None),
       (Some \<lparr>StatusCode = 200, Body = ''success''\<rparr>, None)], [])
   \<and> Retry (maxRetries 3) stubGet
        [\<lparr>body = ''slow down'', statusCode = 429\<rparr>, \<lparr>body = ''success'', statusCode = 200\<rparr>] 0 =
       Some (Inr (Some \<lparr>StatusCode = 429, Body = ''slow down''\<rparr>, 1,
               Some (BadHttpResponse
                 \<lparr>HttpResponseCode = 429, Message = ''(Permanent) HTTP response code 429''\<rparr>)),
             [\<lparr>body = ''success'', statusCode = 200\<rparr>], 3)
   \<and> Retry (maxRetries 3) stubGet
        [\<lparr>body = ''slow down'', statusCode = 429\<rparr>, \<lparr>body = ''success'', statusCode = 200\<rparr>] 0 \<noteq>
       Some (Inr (Some \<lparr>StatusCode = 200, Body = ''success''\<rparr>, 2, None), [], 2)"
proof -
  have call: "stubGet [\<lparr>body = ''slow down'', statusCode = 429\<rparr>, \<lparr>body = ''success'', statusCode = 200\<rparr>] =
       ((Some \<lparr>StatusCode = 429, Body = ''slow down''\<rparr>, None),
        [\<lparr>body = ''success'', statusCode = 200\<rparr>])"
    by (simp add: stubGet_def ServeHTTP_def)
  have not5: "StatusCode \<lparr>StatusCode = 429, Body = ''slow down''\<rparr> sdiv 100 \<noteq> 5"
    by (simp add: sdiv_100_eq_5)
  have two: "calls 2 stubGet
      [\<lparr>body = ''slow down'', statusCode = 429\<rparr>, \<lparr>body = ''success'', statusCode = 200\<rparr>] =
     ([(Some \<lparr>StatusCode = 429, Body = ''slow down''\<rparr>, None),
       (Some \<lparr>StatusCode = 200, Body = ''success''\<rparr>, None)], [])"
    by (simp add: numeral_2_eq_2 stubGet_def ServeHTTP_def)
  show ?thesis
    using first_attempt_terminal [where httpCall = stubGet and bk = "maxRetries 3" and b = 0,
        OF call not5]
    by (simp add: two sdiv_100_eq_2 Itoa_429 maxRetries_def)
qed

section \<open>Server errors are retried\<close>

text \<open>
  C2. For every operation whose first four invocations return responses with the statuses
  500, 501, 502 and 200, and every scheduler that grants the three waits asked of it,
  \<^verbatim>\<open>Retry\<close> returns the 200 response, the attempt count 4 and a nil error.
\<close>

theorem retry_5xx_then_success:
  assumes run: "calls 4 httpCall w =
      ([(Some r1, None), (Some r2, None), (Some r3, None), (Some r4, None)], w')"
    and codes: "StatusCode r1 = 500" "StatusCode r2 = 501" "StatusCode r3 = 502"
      "StatusCode r4 = 200"
    and budget: "waits_granted (NextBackOff bk) 3 (Reset bk b) = Some b'"
  shows "Retry bk httpCall w b = Some (Inr (Some r4, 4, None), w', b')"
proof -
  have "calls (Suc 3) httpCall w =
      ([(Some r1, None), (Some r2, None), (Some r3, None), (Some r4, None)], w')"
    using run by (simp add: eval_nat_numeral)
  from calls_Suc_last [OF this] obtain w3 where
    three: "calls 3 httpCall w = ([(Some r1, None), (Some r2, None), (Some r3, None)], w3)"
    and fourth: "httpCall w3 = ((Some r4, None), w')"
    by auto
  have "list_all retryable [(Some r1, None), (Some r2, None), (Some r3, None)]"
    using codes by (simp add: retryable_def is_5xx_def)
  from RetryNotify_unrolled [OF three this budget] obtain l where
    l: "attempts l = 3"
    and unrolled: "RetryNotify (doHttpCall httpCall) bk
        (\<lparr>response = None, err = None, attempts = 0\<rparr>, w) b =
      RetryNotify_loop (doHttpCall httpCall) (NextBackOff bk) (l, w3) b'"
    by auto
  have "doHttpCall httpCall (l, w3) =
      (Inr None, l\<lparr>response := Some r4, err := None, attempts := 4\<rparr>, w')"
    using fourth codes(4) l by (simp add: doHttpCall_def sdiv_100_eq_5)
  from loop_done [where operation = "doHttpCall httpCall" and s = "(l, w3)"
      and nxt = "NextBackOff bk" and b = b', OF this]
  have "RetryNotify (doHttpCall httpCall) bk
        (\<lparr>response = None, err = None, attempts = 0\<rparr>, w) b =
      Some (Inr None, (l\<lparr>response := Some r4, err := None, attempts := 4\<rparr>, w'), b')"
    by (simp add: unrolled)
  then show ?thesis
    using codes(4) by (simp add: Retry_def sdiv_100_eq_2)
qed

theorem retry_5xx_then_success_witness:
  "calls 4 stubGet
      [\<lparr>body = ''fail'', statusCode = 500\<rparr>, \<lparr>body = ''fail'', statusCode = 501\<rparr>, \<lparr>body = ''fail'', statusCode = 502\<rparr>, \<lparr>body = ''success'', statusCode = 200\<rparr>, \<lparr>body = ''fail'', statusCode = 502\<rparr>] =
     ([(Some \<lparr>StatusCode = 500, Body = ''fail''\<rparr>, None), (Some \<lparr>StatusCode = 501, Body = ''fail''\<rparr>, None), (Some \<lparr>StatusCode = 502, Body = ''fail''\<rparr>, None), (Some \<lparr>StatusCode = 200, Body = ''success''\<rparr>, None)],
      [\<lparr>body = ''fail'', statusCode = 502\<rparr>])
   \<and> StatusCode \<lparr>StatusCode = 500, Body = ''fail''\<rparr> = 500
   \<and> StatusCode \<lparr>StatusCode = 501, Body = ''fail''\<rparr> = 501
   \<and> StatusCode \<lparr>StatusCode = 502, Body = ''fail''\<rparr> = 502
   \<and> StatusCode \<lparr>StatusCode = 200, Body = ''success''\<rparr> = 200
   \<and> waits_granted (NextBackOff (maxRetries 5)) 3 (Reset (maxRetries 5) 0) = Some 2
   \<and> Retry (maxRetries 5) stubGet
        [\<lparr>body = ''fail'', statusCode = 500\<rparr>, \<lparr>body = ''fail'', statusCode = 501\<rparr>, \<lparr>body = ''fail'', statusCode = 502\<rparr>, \<lparr>body = ''success'', statusCode = 200\<rparr>, \<lparr>body = ''fail'', statusCode = 502\<rparr>] 0 =
       Some (Inr (Some \<lparr>StatusCode = 200, Body = ''success''\<rparr>, 4, None), [\<lparr>body = ''fail'', statusCode = 502\<rparr>], 2)"
proof -
  have run: "calls 4 stubGet
      [\<lparr>body = ''fail'', statusCode = 500\<rparr>, \<lparr>body = ''fail'', statusCode = 501\<rparr>, \<lparr>body = ''fail'', statusCode = 502\<rparr>, \<lparr>body = ''success'', statusCode = 200\<rparr>, \<lparr>body = ''fail'', statusCode = 502\<rparr>] =
     ([(Some \<lparr>StatusCode = 500, Body = ''fail''\<rparr>, None), (Some \<lparr>StatusCode = 501, Body = ''fail''\<rparr>, None), (Some \<lparr>StatusCode = 502, Body = ''fail''\<rparr>, None), (Some \<lparr>StatusCode = 200, Body = ''success''\<rparr>, None)],
      [\<lparr>body = ''fail'', statusCode = 502\<rparr>])"
    by (simp add: eval_nat_numeral stubGet_def ServeHTTP_def)
  have budget: "waits_granted (NextBackOff (maxRetries 5)) 3 (Reset (maxRetries 5) 0) = Some 2"
    by (simp add: eval_nat_numeral maxRetries_def)
  from retry_5xx_then_success [where httpCall = stubGet and bk = "maxRetries 5" and b = 0,
      OF run _ _ _ _ budget]
  have "Retry (maxRetries 5) stubGet
        [\<lparr>body = ''fail'', statusCode = 500\<rparr>, \<lparr>body = ''fail'', statusCode = 501\<rparr>, \<lparr>body = ''fail'', statusCode = 502\<rparr>, \<lparr>body = ''success'', statusCode = 200\<rparr>, \<lparr>body = ''fail'', statusCode = 502\<rparr>] 0 =
       Some (Inr (Some \<lparr>StatusCode = 200, Body = ''success''\<rparr>, 4, None), [\<lparr>body = ''fail'', statusCode = 502\<rparr>], 2)"
    by simp
  with run budget show ?thesis by simp
qed

section \<open>Client errors are permanent\<close>

text \<open>
  C3. For every status \<open>s\<close> in \<open>[400, 500)\<close> other than 429: if the first attempt returns a
  response with status \<open>s\<close>, \<^verbatim>\<open>Retry\<close> makes no further attempt. It returns that response,
  the attempt count 1 and the structured error carrying \<open>s\<close> with the message
  "(Permanent) HTTP response code s"; the scheduler has only been reset, and an operation that
  logs its invocations has logged exactly one.
\<close>

theorem client_error_not_retried:
  assumes "400 \<le> s" and "s < 500" and "s \<noteq> 429"
    and "httpCall w = ((Some r, None), w')" and "StatusCode r = s"
  shows "Retry bk httpCall w b =
           Some (Inr (Some r, 1,
                   Some (BadHttpResponse
                     \<lparr>HttpResponseCode = s,
                      Message = ''(Permanent) HTTP response code '' @ Itoa s\<rparr>)),
                 w', Reset bk b)
       \<and> Retry bk (traced httpCall) (w, []) b =
           Some (Inr (Some r, 1,
                   Some (BadHttpResponse
                     \<lparr>HttpResponseCode = s,
                      Message = ''(Permanent) HTTP response code '' @ Itoa s\<rparr>)),
                 (w', [(Some r, None)]), Reset bk b)"
proof -
  have not5: "StatusCode r sdiv 100 \<noteq> 5" and not2: "StatusCode r sdiv 100 \<noteq> 2"
    using assms(1,2,5) by (simp_all add: sdiv_100_eq_5 sdiv_100_eq_2)
  have logged: "traced httpCall (w, []) = ((Some r, None), (w', [(Some r, None)]))"
    using assms(4) by (simp add: traced_def)
  show ?thesis
    using first_attempt_terminal [where httpCall = httpCall and w = w and bk = bk and b = b,
        OF assms(4) not5]
      first_attempt_terminal [where httpCall = "traced httpCall" and w = "(w, [])"
        and bk = bk and b = b, OF logged not5]
      not2 assms(5)
    by simp
qed

theorem client_error_not_retried_witness:
  "(400::int) \<le> 409 \<and> (409::int) < 500 \<and> (409::int) \<noteq> 429
   \<and> stubGet [\<lparr>body = ''fail'', statusCode = 409\<rparr>, \<lparr>body = ''success'', statusCode = 200\<rparr>] =
       ((Some \<lparr>StatusCode = 409, Body = ''fail''\<rparr>, None),
        [\<lparr>body = ''success'', statusCode = 200\<rparr>])
   \<and> StatusCode \<lparr>StatusCode = 409, Body = ''fail''\<rparr> = 409
   \<and> Retry (maxRetries 3) stubGet
        [\<lparr>body = ''fail'', statusCode = 409\<rparr>, \<lparr>body = ''success'', statusCode = 200\<rparr>] 0 =
       Some (Inr (Some \<lparr>StatusCode = 409, Body = ''fail''\<rparr>, 1,
               Some (BadHttpResponse
                 \<lparr>HttpResponseCode = 409, Message = ''(Permanent) HTTP response code 409''\<rparr>)),
             [\<lparr>body = ''success'', statusCode = 200\<rparr>], 3)"
proof -
  have call: "stubGet [\<lparr>body = ''fail'', statusCode = 409\<rparr>, \<lparr>body = ''success'', statusCode = 200\<rparr>] =
       ((Some \<lparr>StatusCode = 409, Body = ''fail''\<rparr>, None),
        [\<lparr>body = ''success'', statusCode = 200\<rparr>])"
    by (simp add: stubGet_def ServeHTTP_def)
  have "Itoa 409 = ''409''"
    by (simp add: Itoa_def digits.simps digit_def)
  then show ?thesis
    using client_error_not_retried [where s = 409 and httpCall = stubGet
        and w = "[\<lparr>body = ''fail'', statusCode = 409\<rparr>, \<lparr>body = ''success'', statusCode = 200\<rparr>]"
        and bk = "maxRetries 3" and b = 0, OF _ _ _ call]
    by (simp add: call maxRetries_def)
qed

section \<open>An exhausted budget\<close>

text \<open>
  C4, as the code has it. For every run in which all attempts return 5xx responses and the
  scheduler grants \<open>k\<close> waits and then returns \<^verbatim>\<open>STOP\<close>, \<^verbatim>\<open>Retry\<close> returns the error of the last
  attempt as it is, the structured error carrying the last 5xx status with the message
  "(Intermittent) HTTP response code", together with the last 5xx response and the attempt
  count \<open>k + 1\<close>: one more than the number of waits granted, so greater than 1 exactly when
  the first call of \<^verbatim>\<open>NextBackOff\<close> does not return \<^verbatim>\<open>STOP\<close>.
\<close>

theorem exhausted_budget_returns_last_5xx:
  assumes run: "calls (Suc k) httpCall w = (os, w')"
    and all5: "list_all is_5xx os"
    and budget: "waits_granted (NextBackOff bk) k (Reset bk b) = Some b1"
    and stop: "NextBackOff bk b1 = (None, b')"
  shows "\<exists>r. last os = (Some r, None) \<and> 500 \<le> StatusCode r \<and> StatusCode r < 600 \<and>
     Retry bk httpCall w b =
       Some (Inr (Some r, int k + 1,
               Some (BadHttpResponse
                 \<lparr>HttpResponseCode = StatusCode r,
                  Message = ''(Intermittent) HTTP response code '' @ Itoa (StatusCode r)\<rparr>)),
             w', b')"
proof -
  from calls_Suc_last [OF run] obtain wk where
    first: "calls k httpCall w = (butlast os, wk)"
    and final: "httpCall wk = (last os, w')" and ne: "os \<noteq> []"
    by auto
  from all5 ne have "is_5xx (last os)"
    by (simp add: list_all_iff)
  then obtain r where r: "last os = (Some r, None)" "500 \<le> StatusCode r" "StatusCode r < 600"
    by (cases "last os") (auto simp: is_5xx_def split: option.splits)
  have "list_all retryable (butlast os)"
    using all5 by (auto simp: list_all_iff is_5xx_retryable dest: in_set_butlastD)
  from RetryNotify_unrolled [OF first this budget] obtain l where
    l: "attempts l = int k"
    and unrolled: "RetryNotify (doHttpCall httpCall) bk
        (\<lparr>response = None, err = None, attempts = 0\<rparr>, w) b =
      RetryNotify_loop (doHttpCall httpCall) (NextBackOff bk) (l, wk) b1"
    by auto
  let ?e = "BadHttpResponse \<lparr>HttpResponseCode = StatusCode r,
      Message = ''(Intermittent) HTTP response code '' @ Itoa (StatusCode r)\<rparr>"
  have "doHttpCall httpCall (l, wk) =
      (Inr (Some ?e), l\<lparr>response := Some r, err := None, attempts := int k + 1\<rparr>, w')"
    using final r l by (simp add: doHttpCall_def sdiv_100_eq_5 Let_def)
  from loop_stop [where operation = "doHttpCall httpCall" and s = "(l, wk)"
      and nxt = "NextBackOff bk" and b = b1, OF this stop]
  have "RetryNotify (doHttpCall httpCall) bk
        (\<lparr>response = None, err = None, attempts = 0\<rparr>, w) b =
      Some (Inr (Some ?e), (l\<lparr>response := Some r, err := None, attempts := int k + 1\<rparr>, w'), b')"
    by (simp add: unrolled)
  then have "Retry bk httpCall w b = Some (Inr (Some r, int k + 1, Some ?e), w', b')"
    by (simp add: Retry_def)
  with r show ?thesis by blast
qed

theorem exhausted_budget_returns_last_5xx_witness:
  "calls (Suc 2) stubGet
      [\<lparr>body = ''fail'', statusCode = 500\<rparr>, \<lparr>body = ''fail'', statusCode = 500\<rparr>, \<lparr>body = ''fail'', statusCode = 500\<rparr>, \<lparr>body = ''fail'', statusCode = 500\<rparr>, \<lparr>body = ''fail'', statusCode = 500\<rparr>] =
     ([(Some \<lparr>StatusCode = 500, Body = ''fail''\<rparr>, None), (Some \<lparr>StatusCode = 500, Body = ''fail''\<rparr>, None), (Some \<lparr>StatusCode = 500, Body = ''fail''\<rparr>, None)],
      [\<lparr>body = ''fail'', statusCode = 500\<rparr>, \<lparr>body = ''fail'', statusCode = 500\<rparr>])
   \<and> list_all is_5xx
        [(Some \<lparr>StatusCode = 500, Body = ''fail''\<rparr>, None), (Some \<lparr>StatusCode = 500, Body = ''fail''\<rparr>, None), (Some \<lparr>StatusCode = 500, Body = ''fail''\<rparr>, None)]
   \<and> waits_granted (NextBackOff (maxRetries 2)) 2 (Reset (maxRetries 2) 0) = Some 0
   \<and> NextBackOff (maxRetries 2) 0 = (None, 0)
   \<and> Retry (maxRetries 2) stubGet
        [\<lparr>body = ''fail'', statusCode = 500\<rparr>, \<lparr>body = ''fail'', statusCode = 500\<rparr>, \<lparr>body = ''fail'', statusCode = 500\<rparr>, \<lparr>body = ''fail'', statusCode = 500\<rparr>, \<lparr>body = ''fail'', statusCode = 500\<rparr>] 0 =
       Some (Inr (Some \<lparr>StatusCode = 500, Body = ''fail''\<rparr>, 3,
               Some (BadHttpResponse \<lparr>HttpResponseCode = 500, Message = ''(Intermittent) HTTP response code 500''\<rparr>)),
             [\<lparr>body = ''fail'', statusCode = 500\<rparr>, \<lparr>body = ''fail'', statusCode = 500\<rparr>], 0)"
proof -
  have run: "calls (Suc 2) stubGet
      [\<lparr>body = ''fail'', statusCode = 500\<rparr>, \<lparr>body = ''fail'', statusCode = 500\<rparr>, \<lparr>body = ''fail'', statusCode = 500\<rparr>, \<lparr>body = ''fail'', statusCode = 500\<rparr>, \<lparr>body = ''fail'', statusCode = 500\<rparr>] =
     ([(Some \<lparr>StatusCode = 500, Body = ''fail''\<rparr>, None), (Some \<lparr>StatusCode = 500, Body = ''fail''\<rparr>, None), (Some \<lparr>StatusCode = 500, Body = ''fail''\<rparr>, None)],
      [\<lparr>body = ''fail'', statusCode = 500\<rparr>, \<lparr>body = ''fail'', statusCode = 500\<rparr>])"
    by (simp add: eval_nat_numeral stubGet_def ServeHTTP_def)
  have all5: "list_all is_5xx
        [(Some \<lparr>StatusCode = 500, Body = ''fail''\<rparr>, None), (Some \<lparr>StatusCode = 500, Body = ''fail''\<rparr>, None), (Some \<lparr>StatusCode = 500, Body = ''fail''\<rparr>, None)]"
    by (simp add: is_5xx_def)
  have budget: "waits_granted (NextBackOff (maxRetries 2)) 2 (Reset (maxRetries 2) 0) = Some 0"
    by (simp add: eval_nat_numeral maxRetries_def)
  have stop: "NextBackOff (maxRetries 2) 0 = (None, 0)"
    by (simp add: maxRetries_def)
  have "Itoa 500 = ''500''"
    by (simp add: Itoa_def digits.simps digit_def)
  with exhausted_budget_returns_last_5xx [where httpCall = stubGet and bk = "maxRetries 2"
      and b = 0, OF run all5 budget stop]
  have "Retry (maxRetries 2) stubGet
        [\<lparr>body = ''fail'', statusCode = 500\<rparr>, \<lparr>body = ''fail'', statusCode = 500\<rparr>, \<lparr>body = ''fail'', statusCode = 500\<rparr>, \<lparr>body = ''fail'', statusCode = 500\<rparr>, \<lparr>body = ''fail'', statusCode = 500\<rparr>] 0 =
       Some (Inr (Some \<lparr>StatusCode = 500, Body = ''fail''\<rparr>, 3,
               Some (BadHttpResponse \<lparr>HttpResponseCode = 500, Message = ''(Intermittent) HTTP response code 500''\<rparr>)),
             [\<lparr>body = ''fail'', statusCode = 500\<rparr>, \<lparr>body = ''fail'', statusCode = 500\<rparr>], 0)"
    by simp
  with run all5 budget stop show ?thesis by simp
qed

text \<open>
  A scheduler that returns \<^verbatim>\<open>STOP\<close> the first time it is asked: every attempt returns 500, the
  scheduler stops, and the attempt count is 1.
\<close>

theorem exhausted_budget_one_attempt_counterexample:
  "calls 1 stubGet [\<lparr>body = ''fail'', statusCode = 500\<rparr>, \<lparr>body = ''fail'', statusCode = 500\<rparr>] =
     ([(Some \<lparr>StatusCode = 500, Body = ''fail''\<rparr>, None)], [\<lparr>body = ''fail'', statusCode = 500\<rparr>])
   \<and> list_all is_5xx [(Some \<lparr>StatusCode = 500, Body = ''fail''\<rparr>, None)]
   \<and> NextBackOff stopBackOff (Reset stopBackOff ()) = (None, ())
   \<and> Retry stopBackOff stubGet [\<lparr>body = ''fail'', statusCode = 500\<rparr>, \<lparr>body = ''fail'', statusCode = 500\<rparr>] () =
       Some (Inr (Some \<lparr>StatusCode = 500, Body = ''fail''\<rparr>, 1,
               Some (BadHttpResponse \<lparr>HttpResponseCode = 500, Message = ''(Intermittent) HTTP response code 500''\<rparr>)),
             [\<lparr>body = ''fail'', statusCode = 500\<rparr>], ())
   \<and> (case Retry stopBackOff stubGet [\<lparr>body = ''fail'', statusCode = 500\<rparr>, \<lparr>body = ''fail'', statusCode = 500\<rparr>] () of
         Some (Inr (resp, n, e), rest) \<Rightarrow> \<not> 1 < n
       | _ \<Rightarrow> False)"
proof -
  have run: "Retry stopBackOff stubGet [\<lparr>body = ''fail'', statusCode = 500\<rparr>, \<lparr>body = ''fail'', statusCode = 500\<rparr>] () =
       Some (Inr (Some \<lparr>StatusCode = 500, Body = ''fail''\<rparr>, 1,
               Some (BadHttpResponse \<lparr>HttpResponseCode = 500, Message = ''(Intermittent) HTTP response code 500''\<rparr>)),
             [\<lparr>body = ''fail'', statusCode = 500\<rparr>], ())"
    by (simp add: run_simps)
  show ?thesis
    unfolding run by (simp add: stubGet_def ServeHTTP_def is_5xx_def stopBackOff_def)
qed

section \<open>What every run returns\<close>







section \<open>Waits without jitter\<close>

text \<open>
  C8. For every backoff configuration of the data model (a positive initial interval, a
  multiplier above 1, a maximal interval that is a duration, hence not negative) with
  \<^verbatim>\<open>randomizationFactor = 0\<close>, the waits returned by successive calls of \<^verbatim>\<open>NextBackOff\<close>
  within one retry sequence, whatever the clock reads, are non-decreasing, and each is at most
  \<^verbatim>\<open>maxInterval\<close>.
\<close>

theorem no_jitter_waits_nondecreasing:
  assumes "RandomizationFactor b = 0" and "0 < InitialInterval b" and "1 < Multiplier b"
    and "0 \<le> MaxInterval b"
  shows "sorted (successive_waits cs (ExponentialBackOff_Reset b)) \<and>
    (\<forall>d \<in> set (successive_waits cs (ExponentialBackOff_Reset b)). d \<le> MaxInterval b)"
  using successive_waits_bounds [of "ExponentialBackOff_Reset b" cs] assms
  by (simp add: ExponentialBackOff_Reset_def)

theorem no_jitter_waits_nondecreasing_witness:
  "RandomizationFactor testSettings = 0 \<and> 0 < InitialInterval testSettings
   \<and> 1 < Multiplier testSettings \<and> 0 \<le> MaxInterval testSettings
   \<and> successive_waits
        [(0, 0), (1000000, 0), (2000000, 0), (3000000, 0), (4000000, 0), (5000000, 0), (6000000, 0), (7000000, 0), (8000000, 0), (9000000, 0), (10000000, 0), (11000000, 0), (30000000, 0)]
        (ExponentialBackOff_Reset testSettings) =
       [1000000, 1200000, 1440000, 1728000, 2073600, 2488320, 2985984, 17915904 / 5, 107495424 / 25, 5000000, 5000000, 5000000]
   \<and> sorted ([1000000, 1200000, 1440000, 1728000, 2073600, 2488320, 2985984, 17915904 / 5, 107495424 / 25, 5000000, 5000000, 5000000] :: rat list)
   \<and> list_all (\<lambda>d. d \<le> MaxInterval testSettings)
        [1000000, 1200000, 1440000, 1728000, 2073600, 2488320, 2985984, 17915904 / 5, 107495424 / 25, 5000000, 5000000, 5000000]"
proof -
  have cfg: "RandomizationFactor testSettings = 0" "0 < InitialInterval testSettings"
    "1 < Multiplier testSettings" "0 \<le> MaxInterval testSettings"
    by (simp_all add: testSettings_def)
  have waits: "successive_waits
        [(0, 0), (1000000, 0), (2000000, 0), (3000000, 0), (4000000, 0), (5000000, 0), (6000000, 0), (7000000, 0), (8000000, 0), (9000000, 0), (10000000, 0), (11000000, 0), (30000000, 0)]
        (ExponentialBackOff_Reset testSettings) =
       [1000000, 1200000, 1440000, 1728000, 2073600, 2488320, 2985984, 17915904 / 5, 107495424 / 25, 5000000, 5000000, 5000000]"
    by (simp add: testSettings_def ExponentialBackOff_Reset_def ExponentialBackOff_NextBackOff_def
        Let_def)
  from no_jitter_waits_nondecreasing [OF cfg,
      of "[(0, 0), (1000000, 0), (2000000, 0), (3000000, 0), (4000000, 0), (5000000, 0), (6000000, 0), (7000000, 0), (8000000, 0), (9000000, 0), (10000000, 0), (11000000, 0), (30000000, 0)]"]
  show ?thesis
    unfolding waits using cfg by (simp add: list_all_iff)
qed

section \<open>A nil response with a nil error\<close>

text \<open>
  C9. \<^verbatim>\<open>Retry\<close> relies on the operation never returning a nil response together with a nil
  error: whenever an attempt is reached (after any number of retried attempts, each followed
  by a granted wait) in which the operation returns a nil response and a nil error, \<^verbatim>\<open>Retry\<close>
  dereferences the nil response in the closure's 5xx check and panics instead of returning an
  error. The final 2xx check reads the status in the same way and is reached only with a
  non-nil response.
\<close>

theorem nil_response_nil_error_panics:
  assumes run: "calls k httpCall w = (os, wk)"
    and retried: "list_all retryable os"
    and budget: "waits_granted (NextBackOff bk) k (Reset bk b) = Some b'"
    and nil: "httpCall wk = ((None, None), w')"
  shows "Retry bk httpCall w b = Some (Inl NilPointerDereference, w', b')"
proof -
  from RetryNotify_unrolled [OF run retried budget] obtain l where
    unrolled: "RetryNotify (doHttpCall httpCall) bk
        (\<lparr>response = None, err = None, attempts = 0\<rparr>, w) b =
      RetryNotify_loop (doHttpCall httpCall) (NextBackOff bk) (l, wk) b'"
    by auto
  have "doHttpCall httpCall (l, wk) =
      (Inl NilPointerDereference,
       l\<lparr>response := None, err := None, attempts := attempts l + 1\<rparr>, w')"
    using nil by (simp add: doHttpCall_def)
  from loop_panic [where operation = "doHttpCall httpCall" and s = "(l, wk)"
      and nxt = "NextBackOff bk" and b = b', OF this]
  show ?thesis
    by (simp add: Retry_def unrolled)
qed

theorem nil_response_nil_error_panics_witness:
  "calls 1 scripted [(None, Some (NetworkError ''connection refused'')), (None, None)] =
     ([(None, Some (NetworkError ''connection refused''))], [(None, None)])
   \<and> list_all retryable [(None, Some (NetworkError ''connection refused''))]
   \<and> waits_granted (NextBackOff (maxRetries 3)) 1 (Reset (maxRetries 3) 0) = Some 2
   \<and> scripted [(None, None)] = ((None, None), [])
   \<and> Retry (maxRetries 3) scripted [(None, Some (NetworkError ''connection refused'')), (None, None)] 0 =
       Some (Inl NilPointerDereference, [], 2)"
proof -
  have run: "calls 1 scripted [(None, Some (NetworkError ''connection refused'')), (None, None)] =
     ([(None, Some (NetworkError ''connection refused''))], [(None, None)])"
    by simp
  have retried: "list_all retryable [(None, Some (NetworkError ''connection refused''))]"
    by (simp add: retryable_def network_failure_def)
  have budget: "waits_granted (NextBackOff (maxRetries 3)) 1 (Reset (maxRetries 3) 0) = Some 2"
    by (simp add: maxRetries_def)
  have nil: "scripted [(None, None)] = ((None, None), [])"
    by simp
  from nil_response_nil_error_panics [where httpCall = scripted and bk = "maxRetries 3"
      and b = 0, OF run retried budget nil] run retried budget nil
  show ?thesis by simp
qed

section \<open>The method-based variant runs on a copy\<close>

text \<open>
  C10. In the method-based variant, every call of \<^verbatim>\<open>Retry\<close> on a receiver that is a cell of
  the store copies the receiver into a new cell and runs the backoff loop, from the copied
  settings, on that cell: when \<^verbatim>\<open>Retry\<close> returns or panics, the receiver and every other cell
  that existed before hold what they held, and the only change to the store is the new cell
  with the scheduler the loop ended in. The same configuration can so be used for the next
  call without a reset.
\<close>

theorem method_Retry_runs_on_copy:
  assumes "Retry_m DumpResponse bk httpCall (Some p) w h = Some (out, w', h')"
    and "p < length h"
  shows "h' ! p = h ! p \<and> take (length h) h' = h \<and>
    (\<exists>r s v. RetryNotify (doHttpCall_m DumpResponse httpCall) bk
        (\<lparr>m_response = None, tempError = None, permError = None, m_attempts = 0\<rparr>, w) (h ! p) =
        Some (r, s, v) \<and> h' = h @ [v])"
  using assms
  by (auto simp: Retry_m_def RetryNotify_at_def Let_def nth_append
      split: option.splits sum.splits if_splits)

theorem method_Retry_runs_on_copy_witness:
  "Retry_m (\<lambda>r. Inr (Body r)) (frozenClock 0 0) (as_temporary stubGet) (Some 0)
      [\<lparr>body = ''fail'', statusCode = 500\<rparr>, \<lparr>body = ''success'', statusCode = 200\<rparr>] [testSettings] =
     Some (Inr (Some \<lparr>StatusCode = 200, Body = ''success''\<rparr>, 2, None), [],
           [testSettings, testSettings\<lparr>currentInterval := 1200000, startTime := Some 0\<rparr>])
   \<and> (0::nat) < length [testSettings]
   \<and> [testSettings, testSettings\<lparr>currentInterval := 1200000, startTime := Some 0\<rparr>] ! 0 =
       [testSettings] ! 0
   \<and> take (length [testSettings])
        [testSettings, testSettings\<lparr>currentInterval := 1200000, startTime := Some 0\<rparr>] =
       [testSettings]"
proof -
  have run: "Retry_m (\<lambda>r. Inr (Body r)) (frozenClock 0 0) (as_temporary stubGet) (Some 0)
      [\<lparr>body = ''fail'', statusCode = 500\<rparr>, \<lparr>body = ''success'', statusCode = 200\<rparr>] [testSettings] =
     Some (Inr (Some \<lparr>StatusCode = 200, Body = ''success''\<rparr>, 2, None), [],
           [testSettings, testSettings\<lparr>currentInterval := 1200000, startTime := Some 0\<rparr>])"
    by (simp add: method_run_simps)
  have cell: "(0::nat) < length [testSettings]"
    by simp
  from method_Retry_runs_on_copy [OF run cell] run show ?thesis by simp
qed

end
